theory Spec2Isabelle
  imports Main "HOL-Library.Word"
begin

section \<open>Go values, errors and outcomes\<close>

text \<open>
  A value of Go's \<^verbatim>\<open>interface{}\<close>, as far as \<^verbatim>\<open>path_callback.go\<close> looks at it:
  the nil interface, a string, or a value of some other dynamic type (an \<^verbatim>\<open>int64\<close>, a
  \<^verbatim>\<open>bool\<close>, or a \<^verbatim>\<open>float64\<close> given by its 64 bits).
\<close>

datatype go_value = GoNil | GoString string | GoInt int | GoBool bool | GoFloat "64 word"

text \<open>
  The type assertion \<^verbatim>\<open>x.(string)\<close> in its one-result form: it yields the string when
  the dynamic type is string and panics otherwise (\<open>None\<close> here, turned into a panic
  by the caller).
\<close>

fun assertString :: "go_value \<Rightarrow> string option" where
  "assertString (GoString s) = Some s"
| "assertString GoNil = None"
| "assertString (GoInt i) = None"
| "assertString (GoBool b) = None"
| "assertString (GoFloat f) = None"

text \<open>Indexing a \<^verbatim>\<open>map[string]interface{}\<close>: a missing key gives the nil interface.\<close>

definition index :: "(string \<rightharpoonup> go_value) \<Rightarrow> string \<Rightarrow> go_value" where
  "index m k = (case m k of None \<Rightarrow> GoNil | Some v \<Rightarrow> v)"

text \<open>
  Error values. \<^verbatim>\<open>errors.New(msg)\<close> carries a message; \<^verbatim>\<open>errwrap.Wrapf(format, err)\<close>
  builds a wrapped error whose outer error has the message \<^verbatim>\<open>format\<close> with every
  \<^verbatim>\<open>{{err}}\<close> replaced by \<^verbatim>\<open>err.Error()\<close>, and whose inner error is \<^verbatim>\<open>err\<close>. The
  \<^verbatim>\<open>Error()\<close> of a wrapped error is the one of its outer error.
\<close>

datatype go_error = GoError string | wrappedError go_error go_error

fun Error :: "go_error \<Rightarrow> string" where
  "Error (GoError msg) = msg"
| "Error (wrappedError outer inner) = Error outer"

fun Replace_err :: "string \<Rightarrow> string \<Rightarrow> string" where
  "Replace_err [] new = []"
| "Replace_err (c # cs) new =
     (if take 7 (c # cs) = ''{{err}}'' then new @ Replace_err (drop 6 cs) new
      else c # Replace_err cs new)"

definition errors_New :: "string \<Rightarrow> go_error" where
  "errors_New msg = GoError msg"

definition Wrapf :: "string \<Rightarrow> go_error \<Rightarrow> go_error" where
  "Wrapf format err = wrappedError (errors_New (Replace_err format (Error err))) err"

text \<open>A call either returns or panics.\<close>

datatype 'a outcome = Return 'a | Panic string

section \<open>Data of the callback\<close>

type_synonym duration = "64 word"

text \<open>The fields of \<^verbatim>\<open>oidcConfig\<close> that the callback reads.\<close>

record oidcConfig =
  ClientID :: string
  TTL :: duration
  MaxTTL :: duration

record connection =
  RemoteAddr :: string

text \<open>
  \<^verbatim>\<open>logical.Request\<close>: the storage handle, the request data and the connection, which
  is a pointer and may be nil.
\<close>

record 's request =
  Storage :: 's
  Data :: "string \<rightharpoonup> go_value"
  Connection :: "connection option"

text \<open>
  \<^verbatim>\<open>oauth2.Token\<close> keeps the token response it came from in its field \<^verbatim>\<open>raw\<close>: a
  \<^verbatim>\<open>map[string]interface{}\<close> when the response was JSON, a \<^verbatim>\<open>url.Values\<close> (each key
  with its list of values) when the response was form-encoded, and nil when the token
  did not come from a response.
\<close>

datatype token_raw =
    RawNil
  | RawJSON "string \<rightharpoonup> go_value"
  | RawValues "string \<rightharpoonup> string list"

record oauth2Token =
  raw :: token_raw

text \<open>\<^verbatim>\<open>url.Values.Get\<close>: the first value of the key, the empty string when there is none.\<close>

definition Values_Get :: "(string \<rightharpoonup> string list) \<Rightarrow> string \<Rightarrow> string" where
  "Values_Get vals key = (case vals key of None \<Rightarrow> [] | Some [] \<Rightarrow> [] | Some (v # vs) \<Rightarrow> v)"

text \<open>
  \<^verbatim>\<open>strings.TrimSpace\<close> removes the leading and the trailing white space of a string.
  The white space characters of \<^verbatim>\<open>unicode.IsSpace\<close> are listed by their UTF-8 bytes:
  U+0009 to U+000D, U+0020, U+0085, U+00A0, U+1680, U+2000 to U+200A, U+2028, U+2029,
  U+202F, U+205F and U+3000.
\<close>

definition spaces :: "string list" where
  "spaces =
     [[CHR 0x09], [CHR 0x0A], [CHR 0x0B], [CHR 0x0C], [CHR 0x0D], [CHR 0x20],
      [CHR 0xC2, CHR 0x85], [CHR 0xC2, CHR 0xA0],
      [CHR 0xE1, CHR 0x9A, CHR 0x80],
      [CHR 0xE2, CHR 0x80, CHR 0x80], [CHR 0xE2, CHR 0x80, CHR 0x81],
      [CHR 0xE2, CHR 0x80, CHR 0x82], [CHR 0xE2, CHR 0x80, CHR 0x83],
      [CHR 0xE2, CHR 0x80, CHR 0x84], [CHR 0xE2, CHR 0x80, CHR 0x85],
      [CHR 0xE2, CHR 0x80, CHR 0x86], [CHR 0xE2, CHR 0x80, CHR 0x87],
      [CHR 0xE2, CHR 0x80, CHR 0x88], [CHR 0xE2, CHR 0x80, CHR 0x89],
      [CHR 0xE2, CHR 0x80, CHR 0x8A],
      [CHR 0xE2, CHR 0x80, CHR 0xA8], [CHR 0xE2, CHR 0x80, CHR 0xA9],
      [CHR 0xE2, CHR 0x80, CHR 0xAF],
      [CHR 0xE2, CHR 0x81, CHR 0x9F],
      [CHR 0xE3, CHR 0x80, CHR 0x80]]"

fun trimPrefixes :: "string list \<Rightarrow> string \<Rightarrow> string" where
  "trimPrefixes ws [] = []"
| "trimPrefixes ws (c # cs) =
     (case find (\<lambda>w. w \<noteq> [] \<and> take (length w) (c # cs) = w) ws of
        None \<Rightarrow> c # cs
      | Some w \<Rightarrow> trimPrefixes ws (drop (length w - 1) cs))"

definition TrimSpace :: "string \<Rightarrow> string" where
  "TrimSpace s = rev (trimPrefixes (map rev spaces) (rev (trimPrefixes spaces s)))"

text \<open>
  \<^verbatim>\<open>strconv.ParseInt(s, 10, 64)\<close>: an optional sign and at least one decimal digit,
  nothing else; it returns an error (\<open>None\<close>) on any other string and when the number
  does not fit an \<^verbatim>\<open>int64\<close>.
\<close>

definition isDigit :: "char \<Rightarrow> bool" where
  "isDigit c = (48 \<le> (of_char c :: nat) \<and> (of_char c :: nat) \<le> 57)"

fun digitsValue :: "int \<Rightarrow> string \<Rightarrow> int" where
  "digitsValue acc [] = acc"
| "digitsValue acc (c # cs) = digitsValue (acc * 10 + (int (of_char c) - 48)) cs"

definition ParseInt :: "string \<Rightarrow> int option" where
  "ParseInt s =
     (case s of
        [] \<Rightarrow> None
      | c # cs \<Rightarrow>
          (let neg = (c = CHR ''-'');
               ds = (if c = CHR ''+'' \<or> c = CHR ''-'' then cs else c # cs)
           in if ds = [] \<or> \<not> list_all isDigit ds then None
              else (let un = digitsValue 0 ds
                    in if \<not> neg \<and> un \<ge> 2 ^ 63 then None
                       else if neg \<and> un > 2 ^ 63 then None
                       else Some (if neg then - un else un))))"

text \<open>
  \<^verbatim>\<open>Token.Extra(key)\<close>. For a JSON response it is the entry of the map, nil when the key
  is absent. For a form-encoded response it takes the first value of the key (the empty
  string when the key is absent) and trims it; when the trimmed text has no "." and
  parses as an integer it returns the integer, when it has one "." and parses as a
  float it returns the float, and otherwise it returns the untrimmed value as a string.
  With no response it returns nil. \<^verbatim>\<open>strconv.ParseFloat(s, 64)\<close> is a parameter: it gives
  the bits of the float, or \<open>None\<close> when it returns an error.
\<close>

definition Extra :: "(string \<Rightarrow> 64 word option) \<Rightarrow> oauth2Token \<Rightarrow> string \<Rightarrow> go_value" where
  "Extra parseFloat token key =
     (case raw token of
        RawJSON m \<Rightarrow> index m key
      | RawValues vals \<Rightarrow>
          (let v = Values_Get vals key;
               s = TrimSpace v;
               dots = count_list s (CHR ''.'')
           in if dots = 0
              then (case ParseInt s of Some i \<Rightarrow> GoInt i | None \<Rightarrow> GoString v)
              else if dots = 1
              then (case parseFloat s of Some f \<Rightarrow> GoFloat f | None \<Rightarrow> GoString v)
              else GoString v)
      | RawNil \<Rightarrow> GoNil)"

record idToken =
  Nonce :: string

record userData =
  Username :: string
  DisplayName :: string
  Policies :: "string list"
  Metadata :: "string \<rightharpoonup> string"
  Groups :: "string list"

record logical_alias =
  Name :: string

record leaseOptions =
  TTL :: duration
  MaxTTL :: duration
  Renewable :: bool

record auth =
  LeaseOptions :: leaseOptions
  DisplayName :: string
  Policies :: "string list"
  Metadata :: "string \<rightharpoonup> string"
  Alias :: "logical_alias option"
  GroupAliases :: "logical_alias list"

record response =
  Auth :: "auth option"
  Data :: "string \<rightharpoonup> go_value"

text \<open>\<^verbatim>\<open>logical.ErrorResponse(text)\<close>: a response with no grant and the text under "error".\<close>

definition ErrorResponse :: "string \<Rightarrow> response" where
  "ErrorResponse text = \<lparr>Auth = None, Data = [''error'' \<mapsto> GoString text]\<rparr>"

section \<open>The collaborators of the callback\<close>

text \<open>
  The backend's methods \<^verbatim>\<open>config\<close>, \<^verbatim>\<open>claimsConfig\<close> and \<^verbatim>\<open>getProvider\<close>, the claims
  mapper \<^verbatim>\<open>parseUserInfo\<close> and the calls into the OAuth2 and OIDC libraries are declared
  outside \<^verbatim>\<open>path_callback.go\<close>. They are parameters of the model: a backend gives, for
  each of them, the result of the call as a function of its arguments. A Go result pair
  \<^verbatim>\<open>(v, err)\<close> is \<open>Inl err\<close> when \<^verbatim>\<open>err != nil\<close> and \<open>Inr v\<close> otherwise; a pointer result
  that may be nil is an option.
  \<^item> \<open>Exchange b config provider code\<close> is
    \<^verbatim>\<open>config.config2OauthConfig(provider).Exchange(ctx, code)\<close>;
  \<^item> \<open>Verify b provider clientID rawIDToken\<close> is
    \<^verbatim>\<open>provider.Verifier(&oidc.Config{ClientID: clientID}).Verify(ctx, rawIDToken)\<close>;
  \<^item> \<open>UserInfo b provider token\<close> is
    \<^verbatim>\<open>provider.UserInfo(ctx, oauth2.StaticTokenSource(token))\<close>;
  \<^item> \<open>ParseFloat b text\<close> is \<^verbatim>\<open>strconv.ParseFloat(text, 64)\<close>, as \<open>Extra\<close> uses it;
  \<^item> \<open>consumeOnGet b\<close> says which of the two designs of the Nonce State Store the
    backend's \<^verbatim>\<open>stateCache\<close> has (see below).
\<close>

record ('s, 'c, 'p, 'u) openIDConnectAuthBackend =
  config :: "'s \<Rightarrow> go_error + oidcConfig option"
  claimsConfig :: "'s \<Rightarrow> go_error + 'c option"
  getProvider :: "oidcConfig \<Rightarrow> go_error + 'p"
  Exchange :: "oidcConfig \<Rightarrow> 'p \<Rightarrow> string \<Rightarrow> go_error + oauth2Token"
  Verify :: "'p \<Rightarrow> string \<Rightarrow> string \<Rightarrow> go_error + idToken"
  UserInfo :: "'p \<Rightarrow> oauth2Token \<Rightarrow> go_error + 'u"
  parseUserInfo :: "'c \<Rightarrow> 'u \<Rightarrow> go_error + userData"
  ParseFloat :: "string \<Rightarrow> 64 word option"
  consumeOnGet :: bool

subsection \<open>The Nonce State Store\<close>

text \<open>
  Modelled from the spec: the type of \<^verbatim>\<open>b.stateCache\<close> is declared outside
  \<^verbatim>\<open>path_callback.go\<close>. The store maps a client identifier to an entry that holds the
  nonce string and the time of its creation. Times are in seconds.
\<close>

record nonceStateEntry =
  nonce_value :: string
  createdAt :: nat

type_synonym stateCache = "string \<rightharpoonup> nonceStateEntry"

text \<open>
  Modelled from the spec: the fixed window of 5 minutes after which an entry is treated
  as absent.
\<close>

definition expiryWindow :: nat where
  "expiryWindow = 300"

text \<open>
  Modelled from the spec: \<^verbatim>\<open>b.stateCache.Get\<close> is declared outside \<^verbatim>\<open>path_callback.go\<close>.
  It returns the current value if the entry is present and not expired, and reports
  not-found otherwise; entries older than the window are treated as absent even if never
  deleted.
\<close>

definition cache_Get :: "stateCache \<Rightarrow> nat \<Rightarrow> string \<Rightarrow> string option" where
  "cache_Get cache now key =
     (case cache key of
        None \<Rightarrow> None
      | Some entry \<Rightarrow>
          if createdAt entry + expiryWindow < now then None else Some (nonce_value entry))"

text \<open>
  Modelled from the spec: what \<^verbatim>\<open>b.stateCache.Get\<close> leaves in the store. The spec allows
  two designs, "read + deleted or allowed to expire": a store whose \<open>get\<close> deletes the
  entry of the key on read, and a store whose \<open>get\<close> only reads and leaves it to the
  window to expire the entry. The flag says whether \<open>get\<close> deletes.
\<close>

definition cache_after_Get :: "bool \<Rightarrow> stateCache \<Rightarrow> string \<Rightarrow> stateCache" where
  "cache_after_Get consume cache key = (if consume then cache(key := None) else cache)"

subsection \<open>The state a callback runs in\<close>

text \<open>
  The mutable world of a callback: the Nonce State Store of the backend, the clock, and
  the log of the calls the callback has made so far, oldest first.
\<close>

datatype event =
    EvConfig
  | EvClaimsConfig
  | EvGetProvider
  | EvExchange string
  | EvVerify string bool
  | EvStateGet string
  | EvNonceCompare string string
  | EvUserInfo
  | EvParseUserInfo

record callback_state =
  stateCache :: stateCache
  clock :: nat
  trace :: "event list"

definition emit :: "event \<Rightarrow> callback_state \<Rightarrow> callback_state" where
  "emit e s = s\<lparr>trace := trace s @ [e]\<rparr>"

text \<open>The calls that go to the identity provider over the network.\<close>

fun is_network :: "event \<Rightarrow> bool" where
  "is_network EvGetProvider = True"
| "is_network (EvExchange code) = True"
| "is_network (EvVerify rawIDToken ok) = True"
| "is_network EvUserInfo = True"
| "is_network EvConfig = False"
| "is_network EvClaimsConfig = False"
| "is_network (EvStateGet key) = False"
| "is_network (EvNonceCompare state nonce) = False"
| "is_network EvParseUserInfo = False"

text \<open>The events of the nonce check proper: the store lookup and the comparison.\<close>

fun is_nonce_check :: "event \<Rightarrow> bool" where
  "is_nonce_check (EvStateGet key) = True"
| "is_nonce_check (EvNonceCompare state nonce) = True"
| "is_nonce_check EvConfig = False"
| "is_nonce_check EvClaimsConfig = False"
| "is_nonce_check EvGetProvider = False"
| "is_nonce_check (EvExchange code) = False"
| "is_nonce_check (EvVerify rawIDToken ok) = False"
| "is_nonce_check EvUserInfo = False"
| "is_nonce_check EvParseUserInfo = False"

section \<open>verifyNonce\<close>

definition verifyNonce ::
  "('s, 'c, 'p, 'u) openIDConnectAuthBackend \<Rightarrow> oidcConfig \<Rightarrow> 's request \<Rightarrow> 'p \<Rightarrow> oauth2Token
     \<Rightarrow> callback_state \<Rightarrow> go_error option outcome \<times> callback_state" where
  "verifyNonce b cfg req provider token s =
     (case assertString (Extra (ParseFloat b) token ''id_token'') of
        None \<Rightarrow> (Panic ''interface conversion: interface {} is not string'', s)
      | Some rawIDToken \<Rightarrow>
          (case Verify b provider (ClientID cfg) rawIDToken of
             Inl err \<Rightarrow>
               (Return (Some (errors_New (''Failed to verify ID Token: '' @ Error err))),
                emit (EvVerify rawIDToken False) s)
           | Inr idToken \<Rightarrow>
               (let s1 = emit (EvVerify rawIDToken True) s in
                case Connection req of
                  None \<Rightarrow> (Panic ''invalid memory address or nil pointer dereference'', s1)
                | Some conn \<Rightarrow>
                    (let s1' = emit (EvStateGet (RemoteAddr conn)) s1;
                         found = cache_Get (stateCache s1') (clock s1') (RemoteAddr conn);
                         s2 = s1'\<lparr>stateCache :=
                                cache_after_Get (consumeOnGet b) (stateCache s1') (RemoteAddr conn)\<rparr> in
                     case found of
                       None \<Rightarrow>
                         (Return (Some (errors_New
                            ''Could not find connection state, this request may be forged or took over 5 minutes'')),
                          s2)
                     | Some state \<Rightarrow>
                         (let s3 = emit (EvNonceCompare state (Nonce idToken)) s2 in
                          if state \<noteq> Nonce idToken
                          then (Return (Some (errors_New
                                  ''state nonce not matching, this request may be forged'')), s3)
                          else (Return None, s3))))))"

section \<open>pathCallback\<close>

text \<open>The loop that appends one alias per group to the grant.\<close>

fun mapGroups :: "auth \<Rightarrow> string list \<Rightarrow> auth" where
  "mapGroups a [] = a"
| "mapGroups a (grp # grps) =
     mapGroups (a\<lparr>GroupAliases := GroupAliases a @ [\<lparr>Name = grp\<rparr>]\<rparr>) grps"

definition pathCallback ::
  "('s, 'c, 'p, 'u) openIDConnectAuthBackend \<Rightarrow> 's request \<Rightarrow> callback_state
     \<Rightarrow> (response option \<times> go_error option) outcome \<times> callback_state" where
  "pathCallback b req s =
     (let s1 = emit EvConfig s in
      case config b (Storage req) of
        Inl err \<Rightarrow> (Return (None, Some err), s1)
      | Inr None \<Rightarrow>
          (Return (Some (ErrorResponse ''could not load OIDC configuration''), None), s1)
      | Inr (Some cfg) \<Rightarrow>
     (let s2 = emit EvClaimsConfig s1 in
      case claimsConfig b (Storage req) of
        Inl err \<Rightarrow> (Return (None, Some err), s2)
      | Inr None \<Rightarrow>
          (Return (Some (ErrorResponse ''could not load OIDC Mapping configuration''), None), s2)
      | Inr (Some claimsCfg) \<Rightarrow>
     (let s3 = emit EvGetProvider s2 in
      case getProvider b cfg of
        Inl err \<Rightarrow>
          (Return (None, Some (Wrapf ''error getting provider for login operation: {{err}}'' err)), s3)
      | Inr provider \<Rightarrow>
     (case assertString (index (request.Data req) ''code'') of
        None \<Rightarrow> (Panic ''interface conversion: interface {} is not string'', s3)
      | Some code \<Rightarrow>
     (let s4 = emit (EvExchange code) s3 in
      case Exchange b cfg provider code of
        Inl err \<Rightarrow> (Return (None, Some (Wrapf ''Failed to exchange token: {{err}}'' err)), s4)
      | Inr oauth2Token \<Rightarrow>
     (case verifyNonce b cfg req provider oauth2Token s4 of
        (Panic msg, s5) \<Rightarrow> (Panic msg, s5)
      | (Return (Some err), s5) \<Rightarrow>
          (Return (None, Some (Wrapf ''Failed to verify nonce: {{err}}'' err)), s5)
      | (Return None, s5) \<Rightarrow>
     (let s6 = emit EvUserInfo s5 in
      case UserInfo b provider oauth2Token of
        Inl err \<Rightarrow> (Return (None, Some (Wrapf ''Failed to exchange token: {{err}}'' err)), s6)
      | Inr userInfo \<Rightarrow>
     (let s7 = emit EvParseUserInfo s6 in
      case parseUserInfo b claimsCfg userInfo of
        Inl err \<Rightarrow> (Return (None, Some (Wrapf ''Failed to map user claims: {{err}}'' err)), s7)
      | Inr userData \<Rightarrow>
          (Return
             (Some \<lparr>Auth = Some (mapGroups
                       \<lparr>LeaseOptions =
                          \<lparr>TTL = oidcConfig.TTL cfg, MaxTTL = oidcConfig.MaxTTL cfg,
                           Renewable = True\<rparr>,
                        DisplayName = userData.DisplayName userData,
                        Policies = userData.Policies userData,
                        Metadata = userData.Metadata userData,
                        Alias = Some \<lparr>Name = Username userData\<rparr>,
                        GroupAliases = []\<rparr>
                       (Groups userData)),
                    Data = Map.empty\<rparr>,
              None),
           s7)))))))))"

text \<open>The events a callback adds to the log.\<close>

definition callback_events ::
  "('s, 'c, 'p, 'u) openIDConnectAuthBackend \<Rightarrow> 's request \<Rightarrow> callback_state \<Rightarrow> event list" where
  "callback_events b req s = drop (length (trace s)) (trace (snd (pathCallback b req s)))"

text \<open>The events one call of verifyNonce adds to the log.\<close>

definition verifyNonce_events ::
  "('s, 'c, 'p, 'u) openIDConnectAuthBackend \<Rightarrow> oidcConfig \<Rightarrow> 's request \<Rightarrow> 'p \<Rightarrow> oauth2Token
     \<Rightarrow> callback_state \<Rightarrow> event list" where
  "verifyNonce_events b cfg req provider token s =
     drop (length (trace s)) (trace (snd (verifyNonce b cfg req provider token s)))"

text \<open>
  A log respects the order of verification and nonce check when every store lookup and
  every nonce comparison in it comes after a verification of the ID token, and the last
  verification before it succeeded. The flag says whether that is so at the start.
\<close>

fun verified_before_nonce :: "bool \<Rightarrow> event list \<Rightarrow> bool" where
  "verified_before_nonce v [] = True"
| "verified_before_nonce v (EvVerify rawIDToken ok # evs) = verified_before_nonce ok evs"
| "verified_before_nonce v (EvStateGet key # evs) = (v \<and> verified_before_nonce v evs)"
| "verified_before_nonce v (EvNonceCompare state nonce # evs) = (v \<and> verified_before_nonce v evs)"
| "verified_before_nonce v (EvConfig # evs) = verified_before_nonce v evs"
| "verified_before_nonce v (EvClaimsConfig # evs) = verified_before_nonce v evs"
| "verified_before_nonce v (EvGetProvider # evs) = verified_before_nonce v evs"
| "verified_before_nonce v (EvExchange code # evs) = verified_before_nonce v evs"
| "verified_before_nonce v (EvUserInfo # evs) = verified_before_nonce v evs"
| "verified_before_nonce v (EvParseUserInfo # evs) = verified_before_nonce v evs"

section \<open>A concrete provider, client and store\<close>

definition demoConfig :: oidcConfig where
  "demoConfig = \<lparr>ClientID = ''vault'', TTL = 3600, MaxTTL = 86400\<rparr>"

definition demoUser :: userData where
  "demoUser = \<lparr>Username = ''alice'', DisplayName = ''Alice'', Policies = [''default''],
                Metadata = Map.empty, Groups = [''ops'', ''dev'', ''ops'', ''admin'']\<rparr>"

definition demoToken :: "string \<Rightarrow> oauth2Token" where
  "demoToken rawIDToken = \<lparr>raw = RawJSON [''id_token'' \<mapsto> GoString rawIDToken]\<rparr>"

text \<open>
  The provider answers these codes with JSON token responses: \<open>code-A\<close> and \<open>code-B\<close>
  give two different tokens, both with the nonce \<open>abc123\<close>; \<open>code-X\<close> gives a token
  with the nonce \<open>xyz999\<close>; \<open>code-T\<close> gives a token whose signature does not verify;
  \<open>code-N\<close> gives a token response without an ID token. It answers \<open>code-F\<close> with a
  form-encoded token response without an ID token. The verifier rejects every text but
  the three good ID tokens. The store of the backend only lets entries expire. Of the
  float parser, the one answer that is used is the one for the text \<open>1.5\<close>.
\<close>

definition demoBackend :: "(unit, unit, unit, unit) openIDConnectAuthBackend" where
  "demoBackend =
     \<lparr>config = (\<lambda>st. Inr (Some demoConfig)),
      claimsConfig = (\<lambda>st. Inr (Some ())),
      getProvider = (\<lambda>cfg. Inr ()),
      Exchange = (\<lambda>cfg p code.
        if code = ''code-A'' then Inr (demoToken ''jwt-A'')
        else if code = ''code-B'' then Inr (demoToken ''jwt-B'')
        else if code = ''code-X'' then Inr (demoToken ''jwt-X'')
        else if code = ''code-T'' then Inr (demoToken ''jwt-T'')
        else if code = ''code-N'' then Inr \<lparr>raw = RawJSON Map.empty\<rparr>
        else if code = ''code-F'' then Inr \<lparr>raw = RawValues Map.empty\<rparr>
        else Inl (errors_New ''oauth2: cannot fetch token'')),
      Verify = (\<lambda>p clientID rawIDToken.
        if rawIDToken = ''jwt-A'' \<or> rawIDToken = ''jwt-B'' then Inr \<lparr>Nonce = ''abc123''\<rparr>
        else if rawIDToken = ''jwt-X'' then Inr \<lparr>Nonce = ''xyz999''\<rparr>
        else Inl (errors_New ''failed to verify signature'')),
      UserInfo = (\<lambda>p token. Inr ()),
      parseUserInfo = (\<lambda>claimsCfg userInfo. Inr demoUser),
      ParseFloat = (\<lambda>text. if text = ''1.5'' then Some 0x3FF8000000000000 else None),
      consumeOnGet = False\<rparr>"

definition demoRequest :: "string \<Rightarrow> unit request" where
  "demoRequest code =
     \<lparr>Storage = (), Data = [''code'' \<mapsto> GoString code],
      Connection = Some \<lparr>RemoteAddr = ''1.2.3.4''\<rparr>\<rparr>"

definition demoState :: callback_state where
  "demoState =
     \<lparr>stateCache = [''1.2.3.4'' \<mapsto> \<lparr>nonce_value = ''abc123'', createdAt = 100\<rparr>],
      clock = 160, trace = []\<rparr>"

section \<open>What the caller of the callback observes\<close>

text \<open>
  The host framework shows the requester the message of the error the callback returned,
  and issues a login when the callback returned a response that carries a grant and no
  error.
\<close>

fun surfaced_message :: "(response option \<times> go_error option) outcome \<Rightarrow> string option" where
  "surfaced_message (Return (resp, Some err)) = Some (Error err)"
| "surfaced_message (Return (resp, None)) = None"
| "surfaced_message (Panic msg) = None"


section \<open>Basic facts\<close>

lemmas demo_defs =
  demoBackend_def demoRequest_def demoState_def demoToken_def demoConfig_def demoUser_def

lemmas run_defs =
  pathCallback_def verifyNonce_def emit_def Let_def index_def Extra_def cache_Get_def
  cache_after_Get_def expiryWindow_def callback_events_def

lemmas cb_splits = option.splits sum.splits prod.splits outcome.splits

subsection \<open>The messages of wrapped errors\<close>

lemma Wrapf_provider:
  "Wrapf ''error getting provider for login operation: {{err}}'' e =
     wrappedError (GoError (''error getting provider for login operation: '' @ Error e)) e"
  by (simp add: Wrapf_def errors_New_def)

lemma Wrapf_exchange:
  "Wrapf ''Failed to exchange token: {{err}}'' e =
     wrappedError (GoError (''Failed to exchange token: '' @ Error e)) e"
  by (simp add: Wrapf_def errors_New_def)

lemma Wrapf_nonce:
  "Wrapf ''Failed to verify nonce: {{err}}'' e =
     wrappedError (GoError (''Failed to verify nonce: '' @ Error e)) e"
  by (simp add: Wrapf_def errors_New_def)

lemma Wrapf_claims:
  "Wrapf ''Failed to map user claims: {{err}}'' e =
     wrappedError (GoError (''Failed to map user claims: '' @ Error e)) e"
  by (simp add: Wrapf_def errors_New_def)

subsection \<open>Logging leaves the store and the clock alone\<close>

lemma trace_emit: "trace (emit e s) = trace s @ [e]"
  by (simp add: emit_def)

lemma stateCache_emit: "stateCache (emit e s) = stateCache s"
  by (simp add: emit_def)

lemma clock_emit: "clock (emit e s) = clock s"
  by (simp add: emit_def)

subsection \<open>verifyNonce: store, clock and log\<close>

lemma verifyNonce_clock:
  "clock (snd (verifyNonce b cfg req provider token s)) = clock s"
  by (simp add: verifyNonce_def Let_def clock_emit split: option.splits sum.splits)

lemma verifyNonce_trace:
  "trace (snd (verifyNonce b cfg req provider token s)) =
     trace s @ verifyNonce_events b cfg req provider token s"
  by (simp add: verifyNonce_events_def verifyNonce_def Let_def trace_emit
      split: option.splits sum.splits)

lemma verifyNonce_result:
  "verifyNonce b cfg req provider token s = (r, s') \<Longrightarrow>
     clock s' = clock s \<and>
     trace s' = trace s @ verifyNonce_events b cfg req provider token s"
  using verifyNonce_clock [of b cfg req provider token s]
    verifyNonce_trace [of b cfg req provider token s]
  by simp

lemma verifyNonce_events_ordered:
  "verified_before_nonce v (verifyNonce_events b cfg req provider token s)"
  by (simp add: verifyNonce_events_def verifyNonce_def Let_def trace_emit
      split: option.splits sum.splits)

lemma verified_before_nonce_append:
  "verified_before_nonce v evs \<Longrightarrow> (\<And>v'. verified_before_nonce v' evs') \<Longrightarrow>
     verified_before_nonce v (evs @ evs')"
  by (induction v evs rule: verified_before_nonce.induct) auto

subsection \<open>pathCallback: store, clock and log\<close>


lemma pathCallback_trace:
  "trace (snd (pathCallback b req s)) = trace s @ callback_events b req s"
  by (auto simp: callback_events_def pathCallback_def Let_def trace_emit split: cb_splits
      dest!: verifyNonce_result)

lemma pathCallback_ordered:
  "verified_before_nonce v (callback_events b req s)"
  by (auto simp: callback_events_def pathCallback_def Let_def trace_emit split: cb_splits
      dest!: verifyNonce_result
      intro!: verified_before_nonce_append verifyNonce_events_ordered)

subsection \<open>The group loop\<close>

lemma mapGroups_eq:
  "mapGroups a grps = a\<lparr>GroupAliases := GroupAliases a @ map (\<lambda>grp. \<lparr>Name = grp\<rparr>) grps\<rparr>"
  by (induction grps arbitrary: a) simp_all

lemma mapGroups_LeaseOptions: "LeaseOptions (mapGroups a grps) = LeaseOptions a"
  by (simp add: mapGroups_eq)

lemma mapGroups_GroupAliases:
  "GroupAliases (mapGroups a grps) = GroupAliases a @ map (\<lambda>grp. \<lparr>Name = grp\<rparr>) grps"
  by (simp add: mapGroups_eq)

subsection \<open>The result of verifyNonce does not depend on the log\<close>

lemma verifyNonce_emit:
  "fst (verifyNonce b cfg req provider token (emit e s)) =
     fst (verifyNonce b cfg req provider token s)"
  by (simp add: verifyNonce_def Let_def stateCache_emit clock_emit
      split: option.splits sum.splits)

subsection \<open>What pathCallback returns once both configurations are loaded\<close>

lemma pathCallback_error_channel:
  assumes "config b (Storage req) = Inr (Some cfg)"
    and "claimsConfig b (Storage req) = Inr (Some claimsCfg)"
    and "fst (pathCallback b req s) = Return (resp, Some err)"
  shows "resp = None \<and> (\<exists>format e. err = Wrapf format e)"
  using assms
  by (auto simp: pathCallback_def Let_def split: cb_splits)

lemma pathCallback_grant_channel:
  assumes "config b (Storage req) = Inr (Some cfg)"
    and "claimsConfig b (Storage req) = Inr (Some claimsCfg)"
    and "fst (pathCallback b req s) = Return (resp, None)"
  shows "\<exists>r a. resp = Some r \<and> Auth r = Some a"
  using assms
  by (auto simp: pathCallback_def Let_def split: cb_splits)


subsection \<open>Extra on a form-encoded token response\<close>



subsection \<open>What a callback leaves in the store\<close>










section \<open>The claims\<close>

text \<open>
  C1. In every callback, the lookup in the Nonce State Store and the comparison of the
  nonces come only after the ID token has been verified with success. When the callback
  gets as far as the verification (both configurations load, the provider is obtained,
  the code is a string and its exchange gives a token with a string ID token) and the
  verification fails, the callback returns the error "Failed to verify ID Token: ..."
  (the spec's TokenInvalid), wrapped by "Failed to verify nonce: ...", and its log has
  neither a store lookup nor a nonce comparison.
\<close>

theorem nonce_check_only_after_verification:
  "verified_before_nonce False (callback_events b req s) \<and>
   (config b (Storage req) = Inr (Some cfg) \<longrightarrow>
    claimsConfig b (Storage req) = Inr (Some claimsCfg) \<longrightarrow>
    getProvider b cfg = Inr provider \<longrightarrow>
    index (request.Data req) ''code'' = GoString code \<longrightarrow>
    Exchange b cfg provider code = Inr token \<longrightarrow>
    Extra (ParseFloat b) token ''id_token'' = GoString rawIDToken \<longrightarrow>
    Verify b provider (ClientID cfg) rawIDToken = Inl err \<longrightarrow>
      fst (pathCallback b req s) =
        Return (None, Some (Wrapf ''Failed to verify nonce: {{err}}''
          (errors_New (''Failed to verify ID Token: '' @ Error err)))) \<and>
      (\<forall>e \<in> set (callback_events b req s). \<not> is_nonce_check e))"
proof (intro conjI impI)
  show "verified_before_nonce False (callback_events b req s)"
    by (rule pathCallback_ordered)
next
  assume h: "config b (Storage req) = Inr (Some cfg)"
    "claimsConfig b (Storage req) = Inr (Some claimsCfg)"
    "getProvider b cfg = Inr provider"
    "index (request.Data req) ''code'' = GoString code"
    "Exchange b cfg provider code = Inr token"
    "Extra (ParseFloat b) token ''id_token'' = GoString rawIDToken"
    "Verify b provider (ClientID cfg) rawIDToken = Inl err"
  show "fst (pathCallback b req s) =
        Return (None, Some (Wrapf ''Failed to verify nonce: {{err}}''
          (errors_New (''Failed to verify ID Token: '' @ Error err))))"
    by (simp add: pathCallback_def verifyNonce_def Let_def h)
  show "\<forall>e \<in> set (callback_events b req s). \<not> is_nonce_check e"
    by (simp add: callback_events_def pathCallback_def verifyNonce_def Let_def trace_emit h)
qed

theorem nonce_check_only_after_verification_witness:
  "verified_before_nonce False
     (callback_events demoBackend (demoRequest ''code-T'') demoState) \<and>
   config demoBackend (Storage (demoRequest ''code-T'')) = Inr (Some demoConfig) \<and>
   claimsConfig demoBackend (Storage (demoRequest ''code-T'')) = Inr (Some ()) \<and>
   getProvider demoBackend demoConfig = Inr () \<and>
   index (request.Data (demoRequest ''code-T'')) ''code'' = GoString ''code-T'' \<and>
   Exchange demoBackend demoConfig () ''code-T'' = Inr (demoToken ''jwt-T'') \<and>
   Extra (ParseFloat demoBackend) (demoToken ''jwt-T'') ''id_token'' = GoString ''jwt-T'' \<and>
   Verify demoBackend () (ClientID demoConfig) ''jwt-T'' =
     Inl (errors_New ''failed to verify signature'') \<and>
   fst (pathCallback demoBackend (demoRequest ''code-T'') demoState) =
     Return (None, Some (Wrapf ''Failed to verify nonce: {{err}}''
       (errors_New ''Failed to verify ID Token: failed to verify signature''))) \<and>
   callback_events demoBackend (demoRequest ''code-T'') demoState =
     [EvConfig, EvClaimsConfig, EvGetProvider, EvExchange ''code-T'', EvVerify ''jwt-T'' False]"
  using nonce_check_only_after_verification
    [of demoBackend "demoRequest ''code-T''" demoState demoConfig "()" "()" "''code-T''"
      "demoToken ''jwt-T''" "''jwt-T''" "errors_New ''failed to verify signature''"]
  by (simp add: demo_defs run_defs errors_New_def)

text \<open>
  C2. Take a callback that gets as far as the nonce check with a verified ID token: both
  configurations load, the provider is obtained, the code is a string, its exchange gives
  a token with a string ID token, the verification succeeds, and the request has a
  connection. Then the callback returns the error "Could not find connection state ..."
  exactly when the store has no unexpired entry for the remote address, it returns the
  error "state nonce not matching ..." exactly when the store has an entry whose nonce is
  not equal, as a string, to the nonce of the verified ID token (these two errors are the
  spec's ForgedOrExpiredRequest), and it goes on to the user-info fetch exactly when the
  stored nonce equals the token's nonce.
\<close>

theorem nonce_check_fails_iff_absent_or_mismatch:
  assumes "config b (Storage req) = Inr (Some cfg)"
    and "claimsConfig b (Storage req) = Inr (Some claimsCfg)"
    and "getProvider b cfg = Inr provider"
    and "index (request.Data req) ''code'' = GoString code"
    and "Exchange b cfg provider code = Inr token"
    and "Extra (ParseFloat b) token ''id_token'' = GoString rawIDToken"
    and "Verify b provider (ClientID cfg) rawIDToken = Inr idToken"
    and "Connection req = Some conn"
  shows "(cache_Get (stateCache s) (clock s) (RemoteAddr conn) = None \<longleftrightarrow>
           fst (pathCallback b req s) =
             Return (None, Some (Wrapf ''Failed to verify nonce: {{err}}'' (errors_New
               ''Could not find connection state, this request may be forged or took over 5 minutes''))))
       \<and> ((\<exists>state. cache_Get (stateCache s) (clock s) (RemoteAddr conn) = Some state \<and>
                    state \<noteq> Nonce idToken) \<longleftrightarrow>
           fst (pathCallback b req s) =
             Return (None, Some (Wrapf ''Failed to verify nonce: {{err}}'' (errors_New
               ''state nonce not matching, this request may be forged''))))
       \<and> (cache_Get (stateCache s) (clock s) (RemoteAddr conn) = Some (Nonce idToken) \<longleftrightarrow>
           EvUserInfo \<in> set (callback_events b req s))"
proof -
  let ?g = "cache_Get (stateCache s) (clock s) (RemoteAddr conn)"
  consider (absent) "?g = None"
    | (differs) state where "?g = Some state" "state \<noteq> Nonce idToken"
    | (matches) "?g = Some (Nonce idToken)"
    by (cases ?g) auto
  then show ?thesis
  proof cases
    case absent
    then show ?thesis
      by (simp add: callback_events_def pathCallback_def verifyNonce_def Let_def trace_emit
          stateCache_emit clock_emit assms Wrapf_nonce errors_New_def)
  next
    case differs
    then show ?thesis
      by (simp add: callback_events_def pathCallback_def verifyNonce_def Let_def trace_emit
          stateCache_emit clock_emit assms Wrapf_nonce errors_New_def)
  next
    case matches
    then show ?thesis
      by (simp add: callback_events_def pathCallback_def verifyNonce_def Let_def trace_emit
          stateCache_emit clock_emit assms Wrapf_nonce Wrapf_exchange Wrapf_claims errors_New_def
          split: sum.splits)
  qed
qed

theorem nonce_check_fails_iff_absent_or_mismatch_witness:
  "config demoBackend (Storage (demoRequest ''code-X'')) = Inr (Some demoConfig) \<and>
   claimsConfig demoBackend (Storage (demoRequest ''code-X'')) = Inr (Some ()) \<and>
   getProvider demoBackend demoConfig = Inr () \<and>
   index (request.Data (demoRequest ''code-X'')) ''code'' = GoString ''code-X'' \<and>
   Exchange demoBackend demoConfig () ''code-X'' = Inr (demoToken ''jwt-X'') \<and>
   Extra (ParseFloat demoBackend) (demoToken ''jwt-X'') ''id_token'' = GoString ''jwt-X'' \<and>
   Verify demoBackend () (ClientID demoConfig) ''jwt-X'' = Inr \<lparr>Nonce = ''xyz999''\<rparr> \<and>
   Connection (demoRequest ''code-X'') = Some \<lparr>RemoteAddr = ''1.2.3.4''\<rparr> \<and>
   cache_Get (stateCache demoState) (clock demoState) ''1.2.3.4'' = Some ''abc123'' \<and>
   fst (pathCallback demoBackend (demoRequest ''code-X'') demoState) =
     Return (None, Some (Wrapf ''Failed to verify nonce: {{err}}'' (errors_New
       ''state nonce not matching, this request may be forged''))) \<and>
   EvUserInfo \<notin> set (callback_events demoBackend (demoRequest ''code-X'') demoState)"
  using nonce_check_fails_iff_absent_or_mismatch
    [of demoBackend "demoRequest ''code-X''" demoConfig "()" "()" "''code-X''"
      "demoToken ''jwt-X''" "''jwt-X''" "\<lparr>Nonce = ''xyz999''\<rparr>" "\<lparr>RemoteAddr = ''1.2.3.4''\<rparr>"
      demoState]
  by (simp add: demo_defs index_def Extra_def cache_Get_def expiryWindow_def)

text \<open>
  C3, as the code has it. Take a request whose \<open>code\<close> is missing from the request data
  or is not a string. The callback never reaches the code exchange, and no error it
  returns is about the code: an error it returns is the storage error of one of the two
  configuration loads or the wrapped error of the provider creation. Once both
  configurations are loaded and the provider is obtained, the unchecked type assertion
  on the code panics; nothing is returned.
\<close>

theorem missing_code_panics_without_exchange:
  assumes "assertString (index (request.Data req) ''code'') = None"
  shows "(\<forall>resp err. fst (pathCallback b req s) = Return (resp, Some err) \<longrightarrow>
            (config b (Storage req) = Inl err \<or>
             (\<exists>cfg. config b (Storage req) = Inr (Some cfg) \<and>
                (claimsConfig b (Storage req) = Inl err \<or>
                 (\<exists>perr. getProvider b cfg = Inl perr \<and>
                    err = Wrapf ''error getting provider for login operation: {{err}}'' perr)))))
       \<and> (\<forall>cfg claimsCfg provider.
            config b (Storage req) = Inr (Some cfg) \<longrightarrow>
            claimsConfig b (Storage req) = Inr (Some claimsCfg) \<longrightarrow>
            getProvider b cfg = Inr provider \<longrightarrow>
              fst (pathCallback b req s) = Panic ''interface conversion: interface {} is not string'')
       \<and> (\<forall>code. EvExchange code \<notin> set (callback_events b req s))"
  using assms
  by (auto simp: callback_events_def pathCallback_def Let_def trace_emit split: cb_splits)

theorem missing_code_panics_without_exchange_witness:
  "assertString (index (request.Data
      \<lparr>Storage = (), Data = [''code'' \<mapsto> GoInt 42], Connection = None\<rparr>) ''code'') = None \<and>
   fst (pathCallback demoBackend
      \<lparr>Storage = (), Data = [''code'' \<mapsto> GoInt 42], Connection = None\<rparr> demoState) =
     Panic ''interface conversion: interface {} is not string'' \<and>
   callback_events demoBackend
      \<lparr>Storage = (), Data = [''code'' \<mapsto> GoInt 42], Connection = None\<rparr> demoState =
     [EvConfig, EvClaimsConfig, EvGetProvider]"
  using missing_code_panics_without_exchange
    [of "\<lparr>Storage = (), Data = [''code'' \<mapsto> GoInt 42], Connection = None\<rparr>" demoBackend demoState]
  by (simp add: demo_defs run_defs)

text \<open>
  C3, as stated, fails: a request without a \<open>code\<close>, with both configurations and the
  provider in place, makes the callback panic; no error is returned, so no message
  reaches the requester.
\<close>

theorem missing_code_is_not_bad_request:
  "index (request.Data
      \<lparr>Storage = (), Data = Map.empty, Connection = Some \<lparr>RemoteAddr = ''1.2.3.4''\<rparr>\<rparr>) ''code'' = GoNil \<and>
   fst (pathCallback demoBackend
      \<lparr>Storage = (), Data = Map.empty, Connection = Some \<lparr>RemoteAddr = ''1.2.3.4''\<rparr>\<rparr> demoState) =
     Panic ''interface conversion: interface {} is not string'' \<and>
   surfaced_message (fst (pathCallback demoBackend
      \<lparr>Storage = (), Data = Map.empty, Connection = Some \<lparr>RemoteAddr = ''1.2.3.4''\<rparr>\<rparr> demoState)) =
     None"
  by (simp add: demo_defs run_defs)

text \<open>
  C4. When the Configuration read from the store is absent, the callback returns at once
  the error response "could not load OIDC configuration", having made the one call that
  loads it. When the Configuration is present and the ClaimsMappingConfig read from the
  store is absent, the callback returns the error response "could not load OIDC Mapping
  configuration", having made the two loads. In both cases, and whenever either of the
  two is absent in the store, the callback makes no call to the identity provider: no
  discovery, no code exchange, no token verification, no user-info fetch.
\<close>

theorem absent_configuration_fails_before_network:
  "(config b (Storage req) = Inr None \<longrightarrow>
      fst (pathCallback b req s) =
        Return (Some (ErrorResponse ''could not load OIDC configuration''), None) \<and>
      callback_events b req s = [EvConfig])
   \<and> (config b (Storage req) = Inr (Some cfg) \<longrightarrow> claimsConfig b (Storage req) = Inr None \<longrightarrow>
      fst (pathCallback b req s) =
        Return (Some (ErrorResponse ''could not load OIDC Mapping configuration''), None) \<and>
      callback_events b req s = [EvConfig, EvClaimsConfig])
   \<and> (config b (Storage req) = Inr None \<or> claimsConfig b (Storage req) = Inr None \<longrightarrow>
      (\<forall>e \<in> set (callback_events b req s). \<not> is_network e))"
  by (auto simp: callback_events_def pathCallback_def Let_def trace_emit split: cb_splits)

theorem absent_configuration_fails_before_network_witness:
  "config (demoBackend\<lparr>config := \<lambda>st. Inr None\<rparr>) () = Inr None \<and>
   fst (pathCallback (demoBackend\<lparr>config := \<lambda>st. Inr None\<rparr>) (demoRequest ''code-A'') demoState) =
     Return (Some (ErrorResponse ''could not load OIDC configuration''), None) \<and>
   callback_events (demoBackend\<lparr>config := \<lambda>st. Inr None\<rparr>) (demoRequest ''code-A'') demoState =
     [EvConfig] \<and>
   claimsConfig (demoBackend\<lparr>claimsConfig := \<lambda>st. Inr None\<rparr>) () = Inr None \<and>
   fst (pathCallback (demoBackend\<lparr>claimsConfig := \<lambda>st. Inr None\<rparr>) (demoRequest ''code-A'')
      demoState) =
     Return (Some (ErrorResponse ''could not load OIDC Mapping configuration''), None) \<and>
   callback_events (demoBackend\<lparr>claimsConfig := \<lambda>st. Inr None\<rparr>) (demoRequest ''code-A'') demoState =
     [EvConfig, EvClaimsConfig]"
  using absent_configuration_fails_before_network
      [of "demoBackend\<lparr>config := \<lambda>st. Inr None\<rparr>" "demoRequest ''code-A''" demoState demoConfig]
    absent_configuration_fails_before_network
      [of "demoBackend\<lparr>claimsConfig := \<lambda>st. Inr None\<rparr>" "demoRequest ''code-A''" demoState
        demoConfig]
  by (simp add: demo_defs)

text \<open>
  C5. When both configurations are present, the provider is obtained, the code is a
  string and its exchange gives a token whose string ID token verifies, the store's
  unexpired entry for the request's remote address equals the token's nonce, the
  user-info fetch succeeds and the claims mapping succeeds, the callback returns, with no
  error, a response that carries a grant; the grant's TTL and MaxTTL are the ones of the
  Configuration and its renewable flag is true.
\<close>

theorem successful_callback_lease:
  assumes "config b (Storage req) = Inr (Some cfg)"
    and "claimsConfig b (Storage req) = Inr (Some claimsCfg)"
    and "getProvider b cfg = Inr provider"
    and "index (request.Data req) ''code'' = GoString code"
    and "Exchange b cfg provider code = Inr token"
    and "Extra (ParseFloat b) token ''id_token'' = GoString rawIDToken"
    and "Verify b provider (ClientID cfg) rawIDToken = Inr idToken"
    and "Connection req = Some conn"
    and "cache_Get (stateCache s) (clock s) (RemoteAddr conn) = Some (Nonce idToken)"
    and "UserInfo b provider token = Inr userInfo"
    and "parseUserInfo b claimsCfg userInfo = Inr userData"
  shows "\<exists>a. fst (pathCallback b req s) = Return (Some \<lparr>Auth = Some a, Data = Map.empty\<rparr>, None) \<and>
           leaseOptions.TTL (LeaseOptions a) = oidcConfig.TTL cfg \<and>
           leaseOptions.MaxTTL (LeaseOptions a) = oidcConfig.MaxTTL cfg \<and>
           Renewable (LeaseOptions a) = True"
  by (simp add: pathCallback_def verifyNonce_def Let_def stateCache_emit clock_emit assms
      mapGroups_LeaseOptions)

theorem successful_callback_lease_witness:
  "config demoBackend (Storage (demoRequest ''code-A'')) = Inr (Some demoConfig) \<and>
   claimsConfig demoBackend (Storage (demoRequest ''code-A'')) = Inr (Some ()) \<and>
   getProvider demoBackend demoConfig = Inr () \<and>
   index (request.Data (demoRequest ''code-A'')) ''code'' = GoString ''code-A'' \<and>
   Exchange demoBackend demoConfig () ''code-A'' = Inr (demoToken ''jwt-A'') \<and>
   Extra (ParseFloat demoBackend) (demoToken ''jwt-A'') ''id_token'' = GoString ''jwt-A'' \<and>
   Verify demoBackend () (ClientID demoConfig) ''jwt-A'' = Inr \<lparr>Nonce = ''abc123''\<rparr> \<and>
   Connection (demoRequest ''code-A'') = Some \<lparr>RemoteAddr = ''1.2.3.4''\<rparr> \<and>
   cache_Get (stateCache demoState) (clock demoState) ''1.2.3.4'' = Some ''abc123'' \<and>
   UserInfo demoBackend () (demoToken ''jwt-A'') = Inr () \<and>
   parseUserInfo demoBackend () () = Inr demoUser \<and>
   (\<exists>a. fst (pathCallback demoBackend (demoRequest ''code-A'') demoState) =
          Return (Some \<lparr>Auth = Some a, Data = Map.empty\<rparr>, None) \<and>
        leaseOptions.TTL (LeaseOptions a) = 3600 \<and>
        leaseOptions.MaxTTL (LeaseOptions a) = 86400 \<and>
        Renewable (LeaseOptions a) = True)"
  using successful_callback_lease
    [of demoBackend "demoRequest ''code-A''" demoConfig "()" "()" "''code-A''"
      "demoToken ''jwt-A''" "''jwt-A''" "\<lparr>Nonce = ''abc123''\<rparr>" "\<lparr>RemoteAddr = ''1.2.3.4''\<rparr>"
      demoState "()" demoUser]
  by (simp add: demo_defs index_def Extra_def cache_Get_def expiryWindow_def)

text \<open>
  C6, as the code has it. Take a callback that gets as far as verifyNonce with a string
  ID token and a connection. The message it surfaces for a failed nonce step begins with
  "Failed to verify nonce: " and goes on with a text of the check that failed: "Failed to
  verify ID Token: " and the verifier's own error text when the verification failed,
  "Could not find connection state, this request may be forged or took over 5 minutes"
  when the store had no unexpired entry, "state nonce not matching, this request may be
  forged" when the nonces differed. Whatever the verifier's text is, the three messages
  are pairwise different: the message tells the requester which check failed.
\<close>

theorem nonce_failure_messages_are_specific:
  assumes "config b (Storage req) = Inr (Some cfg)"
    and "claimsConfig b (Storage req) = Inr (Some claimsCfg)"
    and "getProvider b cfg = Inr provider"
    and "index (request.Data req) ''code'' = GoString code"
    and "Exchange b cfg provider code = Inr token"
    and "Extra (ParseFloat b) token ''id_token'' = GoString rawIDToken"
    and "Connection req = Some conn"
  shows "(Verify b provider (ClientID cfg) rawIDToken = Inl err \<longrightarrow>
            surfaced_message (fst (pathCallback b req s)) =
              Some (''Failed to verify nonce: Failed to verify ID Token: '' @ Error err))
       \<and> (Verify b provider (ClientID cfg) rawIDToken = Inr idToken \<and>
          cache_Get (stateCache s) (clock s) (RemoteAddr conn) = None \<longrightarrow>
            surfaced_message (fst (pathCallback b req s)) =
              Some ''Failed to verify nonce: Could not find connection state, this request may be forged or took over 5 minutes'')
       \<and> (Verify b provider (ClientID cfg) rawIDToken = Inr idToken \<and>
          cache_Get (stateCache s) (clock s) (RemoteAddr conn) = Some state \<and>
          state \<noteq> Nonce idToken \<longrightarrow>
            surfaced_message (fst (pathCallback b req s)) =
              Some ''Failed to verify nonce: state nonce not matching, this request may be forged'')
       \<and> ''Failed to verify nonce: Failed to verify ID Token: '' @ Error err \<noteq>
            ''Failed to verify nonce: Could not find connection state, this request may be forged or took over 5 minutes''
       \<and> ''Failed to verify nonce: Failed to verify ID Token: '' @ Error err \<noteq>
            ''Failed to verify nonce: state nonce not matching, this request may be forged''
       \<and> ''Failed to verify nonce: Could not find connection state, this request may be forged or took over 5 minutes'' \<noteq>
            ''Failed to verify nonce: state nonce not matching, this request may be forged''"
  by (simp add: pathCallback_def verifyNonce_def Let_def stateCache_emit clock_emit assms
      Wrapf_nonce errors_New_def)

theorem nonce_failure_messages_are_specific_witness:
  "config demoBackend (Storage (demoRequest ''code-X'')) = Inr (Some demoConfig) \<and>
   claimsConfig demoBackend (Storage (demoRequest ''code-X'')) = Inr (Some ()) \<and>
   getProvider demoBackend demoConfig = Inr () \<and>
   index (request.Data (demoRequest ''code-X'')) ''code'' = GoString ''code-X'' \<and>
   Exchange demoBackend demoConfig () ''code-X'' = Inr (demoToken ''jwt-X'') \<and>
   Extra (ParseFloat demoBackend) (demoToken ''jwt-X'') ''id_token'' = GoString ''jwt-X'' \<and>
   Connection (demoRequest ''code-X'') = Some \<lparr>RemoteAddr = ''1.2.3.4''\<rparr> \<and>
   Verify demoBackend () (ClientID demoConfig) ''jwt-X'' = Inr \<lparr>Nonce = ''xyz999''\<rparr> \<and>
   cache_Get (stateCache demoState) (clock demoState) ''1.2.3.4'' = Some ''abc123'' \<and>
   surfaced_message (fst (pathCallback demoBackend (demoRequest ''code-X'') demoState)) =
     Some ''Failed to verify nonce: state nonce not matching, this request may be forged''"
  using nonce_failure_messages_are_specific
    [of demoBackend "demoRequest ''code-X''" demoConfig "()" "()" "''code-X''"
      "demoToken ''jwt-X''" "''jwt-X''" "\<lparr>RemoteAddr = ''1.2.3.4''\<rparr>" "errors_New []"
      demoState "\<lparr>Nonce = ''xyz999''\<rparr>" "''abc123''"]
  by (simp add: demo_defs index_def Extra_def cache_Get_def expiryWindow_def)

text \<open>
  C6, as stated, fails: a callback whose token does not verify, a callback that finds no
  entry in the store and a callback whose nonce does not match surface three different
  messages, each naming its own point of failure.
\<close>

theorem nonce_failure_messages_differ:
  "surfaced_message (fst (pathCallback demoBackend (demoRequest ''code-T'') demoState)) =
     Some ''Failed to verify nonce: Failed to verify ID Token: failed to verify signature'' \<and>
   surfaced_message (fst (pathCallback demoBackend (demoRequest ''code-A'')
       (demoState\<lparr>stateCache := Map.empty\<rparr>))) =
     Some ''Failed to verify nonce: Could not find connection state, this request may be forged or took over 5 minutes'' \<and>
   surfaced_message (fst (pathCallback demoBackend (demoRequest ''code-X'') demoState)) =
     Some ''Failed to verify nonce: state nonce not matching, this request may be forged'' \<and>
   surfaced_message (fst (pathCallback demoBackend (demoRequest ''code-T'') demoState)) \<noteq>
     surfaced_message (fst (pathCallback demoBackend (demoRequest ''code-X'') demoState)) \<and>
   surfaced_message (fst (pathCallback demoBackend (demoRequest ''code-T'') demoState)) \<noteq>
     surfaced_message (fst (pathCallback demoBackend (demoRequest ''code-A'')
       (demoState\<lparr>stateCache := Map.empty\<rparr>))) \<and>
   surfaced_message (fst (pathCallback demoBackend (demoRequest ''code-A'')
       (demoState\<lparr>stateCache := Map.empty\<rparr>))) \<noteq>
     surfaced_message (fst (pathCallback demoBackend (demoRequest ''code-X'') demoState))"
  by (simp add: demo_defs run_defs Wrapf_nonce errors_New_def)




text \<open>
  C8. In every callback that returns a response with a grant and no error, the user-info
  claims were fetched with the exchanged token and mapped by the Claims Mapper under the
  loaded ClaimsMappingConfig, and the names of the grant's group aliases are, one for
  one and in the same order, the groups of the user record the Claims Mapper produced:
  nothing is sorted, dropped or merged.
\<close>

theorem group_aliases_follow_groups:
  assumes "fst (pathCallback b req s) = Return (Some resp, None)"
    and "Auth resp = Some a"
  shows "\<exists>cfg claimsCfg provider code token userInfo userData.
           config b (Storage req) = Inr (Some cfg) \<and>
           claimsConfig b (Storage req) = Inr (Some claimsCfg) \<and>
           getProvider b cfg = Inr provider \<and>
           index (request.Data req) ''code'' = GoString code \<and>
           Exchange b cfg provider code = Inr token \<and>
           UserInfo b provider token = Inr userInfo \<and>
           parseUserInfo b claimsCfg userInfo = Inr userData \<and>
           map Name (GroupAliases a) = Groups userData"
proof -
  have str: "\<And>v c. assertString v = Some c \<Longrightarrow> v = GoString c"
    by (case_tac v) simp_all
  show ?thesis
    using assms
    by (auto simp: pathCallback_def Let_def ErrorResponse_def mapGroups_GroupAliases comp_def
        split: cb_splits dest!: str)
qed

theorem group_aliases_follow_groups_witness:
  "fst (pathCallback demoBackend (demoRequest ''code-A'') demoState) =
     Return (Some \<lparr>Auth = Some
        \<lparr>LeaseOptions = \<lparr>TTL = 3600, MaxTTL = 86400, Renewable = True\<rparr>,
         DisplayName = ''Alice'', Policies = [''default''], Metadata = Map.empty,
         Alias = Some \<lparr>Name = ''alice''\<rparr>,
         GroupAliases =
           [\<lparr>Name = ''ops''\<rparr>, \<lparr>Name = ''dev''\<rparr>, \<lparr>Name = ''ops''\<rparr>, \<lparr>Name = ''admin''\<rparr>]\<rparr>,
       Data = Map.empty\<rparr>, None) \<and>
   parseUserInfo demoBackend () () = Inr demoUser \<and>
   Groups demoUser = [''ops'', ''dev'', ''ops'', ''admin'']"
  using group_aliases_follow_groups [of demoBackend "demoRequest ''code-A''" demoState]
  by (simp add: demo_defs run_defs)




text \<open>
  C10. The callback reports failure in two ways. An absent Configuration, or an absent
  ClaimsMappingConfig once the Configuration is loaded, gives an error response together
  with a nil error. With both configurations loaded, a failure of the provider creation,
  of the code exchange, of verifyNonce, of the user-info fetch or of the claims mapping
  gives a nil response together with the error of that step wrapped by
  \<^verbatim>\<open>errwrap.Wrapf\<close>; every return with a non-nil error has a nil response and a
  wrapped error, and every return with a nil error has a response that carries a grant.
\<close>

theorem failure_channels:
  "(config b (Storage req) = Inr None \<longrightarrow>
      fst (pathCallback b req s) =
        Return (Some (ErrorResponse ''could not load OIDC configuration''), None))
   \<and> (config b (Storage req) = Inr (Some cfg) \<and> claimsConfig b (Storage req) = Inr None \<longrightarrow>
      fst (pathCallback b req s) =
        Return (Some (ErrorResponse ''could not load OIDC Mapping configuration''), None))
   \<and> (config b (Storage req) = Inr (Some cfg) \<and>
       claimsConfig b (Storage req) = Inr (Some claimsCfg) \<longrightarrow>
      (getProvider b cfg = Inl e \<longrightarrow>
         fst (pathCallback b req s) =
           Return (None, Some (Wrapf ''error getting provider for login operation: {{err}}'' e)))
      \<and> (getProvider b cfg = Inr provider \<and>
          index (request.Data req) ''code'' = GoString code \<longrightarrow>
         (Exchange b cfg provider code = Inl e \<longrightarrow>
            fst (pathCallback b req s) =
              Return (None, Some (Wrapf ''Failed to exchange token: {{err}}'' e)))
         \<and> (Exchange b cfg provider code = Inr token \<longrightarrow>
            (fst (verifyNonce b cfg req provider token s) = Return (Some e) \<longrightarrow>
               fst (pathCallback b req s) =
                 Return (None, Some (Wrapf ''Failed to verify nonce: {{err}}'' e)))
            \<and> (fst (verifyNonce b cfg req provider token s) = Return None \<longrightarrow>
               (UserInfo b provider token = Inl e \<longrightarrow>
                  fst (pathCallback b req s) =
                    Return (None, Some (Wrapf ''Failed to exchange token: {{err}}'' e)))
               \<and> (UserInfo b provider token = Inr userInfo \<and>
                   parseUserInfo b claimsCfg userInfo = Inl e \<longrightarrow>
                  fst (pathCallback b req s) =
                    Return (None, Some (Wrapf ''Failed to map user claims: {{err}}'' e))))))
      \<and> (\<forall>resp err. fst (pathCallback b req s) = Return (resp, Some err) \<longrightarrow>
            resp = None \<and> (\<exists>format inner. err = Wrapf format inner))
      \<and> (\<forall>resp. fst (pathCallback b req s) = Return (resp, None) \<longrightarrow>
            (\<exists>r a. resp = Some r \<and> Auth r = Some a)))"
proof (intro conjI impI allI; (elim conjE)?)
  show "fst (pathCallback b req s) =
      Return (Some (ErrorResponse ''could not load OIDC configuration''), None)"
    if "config b (Storage req) = Inr None"
    using that by (simp add: pathCallback_def Let_def)
  show "fst (pathCallback b req s) =
      Return (Some (ErrorResponse ''could not load OIDC Mapping configuration''), None)"
    if "config b (Storage req) = Inr (Some cfg)" "claimsConfig b (Storage req) = Inr None"
    using that by (simp add: pathCallback_def Let_def)
next
  assume c: "config b (Storage req) = Inr (Some cfg)"
    "claimsConfig b (Storage req) = Inr (Some claimsCfg)"
  show "fst (pathCallback b req s) =
      Return (None, Some (Wrapf ''error getting provider for login operation: {{err}}'' e))"
    if "getProvider b cfg = Inl e"
    using c that by (simp add: pathCallback_def Let_def)
  show "resp = None" if "fst (pathCallback b req s) = Return (resp, Some err)" for resp err
    using pathCallback_error_channel [OF c that] by simp
  show "\<exists>format inner. err = Wrapf format inner"
    if "fst (pathCallback b req s) = Return (resp, Some err)" for resp err
    using pathCallback_error_channel [OF c that] by simp
  show "\<exists>r a. resp = Some r \<and> Auth r = Some a"
    if "fst (pathCallback b req s) = Return (resp, None)" for resp
    using pathCallback_grant_channel [OF c that] .
  assume p: "getProvider b cfg = Inr provider"
    "index (request.Data req) ''code'' = GoString code"
  show "fst (pathCallback b req s) =
      Return (None, Some (Wrapf ''Failed to exchange token: {{err}}'' e))"
    if "Exchange b cfg provider code = Inl e"
    using c p that by (simp add: pathCallback_def Let_def)
  assume x: "Exchange b cfg provider code = Inr token"
  let ?s4 = "emit (EvExchange code) (emit EvGetProvider (emit EvClaimsConfig (emit EvConfig s)))"
  have v: "fst (verifyNonce b cfg req provider token ?s4) =
      fst (verifyNonce b cfg req provider token s)"
    by (simp add: verifyNonce_emit)
  show "fst (pathCallback b req s) =
      Return (None, Some (Wrapf ''Failed to verify nonce: {{err}}'' e))"
    if "fst (verifyNonce b cfg req provider token s) = Return (Some e)"
    using c p x that v
    by (cases "verifyNonce b cfg req provider token ?s4") (simp add: pathCallback_def Let_def)
  assume n: "fst (verifyNonce b cfg req provider token s) = Return None"
  show "fst (pathCallback b req s) =
      Return (None, Some (Wrapf ''Failed to exchange token: {{err}}'' e))"
    if "UserInfo b provider token = Inl e"
    using c p x n that v
    by (cases "verifyNonce b cfg req provider token ?s4") (simp add: pathCallback_def Let_def)
  show "fst (pathCallback b req s) =
      Return (None, Some (Wrapf ''Failed to map user claims: {{err}}'' e))"
    if "UserInfo b provider token = Inr userInfo" "parseUserInfo b claimsCfg userInfo = Inl e"
    using c p x n that v
    by (cases "verifyNonce b cfg req provider token ?s4") (simp add: pathCallback_def Let_def)
qed

theorem failure_channels_witness:
  "config (demoBackend\<lparr>config := \<lambda>st. Inr None\<rparr>) () = Inr None \<and>
   fst (pathCallback (demoBackend\<lparr>config := \<lambda>st. Inr None\<rparr>) (demoRequest ''code-A'') demoState) =
     Return (Some (ErrorResponse ''could not load OIDC configuration''), None) \<and>
   config demoBackend (Storage (demoRequest ''code-Z'')) = Inr (Some demoConfig) \<and>
   claimsConfig demoBackend (Storage (demoRequest ''code-Z'')) = Inr (Some ()) \<and>
   getProvider demoBackend demoConfig = Inr () \<and>
   index (request.Data (demoRequest ''code-Z'')) ''code'' = GoString ''code-Z'' \<and>
   Exchange demoBackend demoConfig () ''code-Z'' = Inl (errors_New ''oauth2: cannot fetch token'') \<and>
   fst (pathCallback demoBackend (demoRequest ''code-Z'') demoState) =
     Return (None, Some (Wrapf ''Failed to exchange token: {{err}}''
       (errors_New ''oauth2: cannot fetch token'')))"
  using failure_channels
      [of "demoBackend\<lparr>config := \<lambda>st. Inr None\<rparr>" "demoRequest ''code-A''" demoState]
    failure_channels
      [of demoBackend "demoRequest ''code-Z''" demoState demoConfig "()"
        "errors_New ''oauth2: cannot fetch token''" "()" "''code-Z''"]
  by (simp add: demo_defs index_def)

end
